theory Spec2Isabelle
  imports Complex_Main
begin

section \<open>The store of \<open>Value\<close> objects\<close>

text \<open>
  \<open>grad_eng.py\<close> builds a graph of mutable \<open>Value\<close> objects that refer to each other
  by object identity. The embedding keeps the objects in a store: a list of node
  records, where the identity of an object is its index (objects are appended in the
  order in which \<open>Value.__init__\<close> runs, and are never removed).

  Numbers: the data and gradients of the nodes are Python \<open>float\<close> numbers, read as the
  real numbers they stand for (an \<open>int\<close> given to the library is read as the \<open>float\<close> of
  the same value). Rounding, infinities and NaN are outside this model, so the
  statements below are about the operations the program performs, in the order in which
  it performs them, and not about the last bit of a result. An overflow is in the model
  where Python raises an exception for it, which is in \<open>**\<close>.
\<close>

type_synonym ref = nat

text \<open>What Python can raise in the modelled code. \<open>ComplexResult\<close> is not a Python
  exception: for a negative base and a non-integral exponent \<open>**\<close> returns a complex
  number, and the library stores it in the new node. The stores of this model hold
  \<open>float\<close> data only, so the model ends there, with this outcome; no theorem below says
  anything about that case.\<close>

datatype error =
    AssertionError
  | ZeroDivisionError
  | OverflowError
  | ValueError
  | IndexError
  | RecursionError
  | ComplexResult

text \<open>An argument of an operator: a plain number or a \<open>Value\<close> object.\<close>

datatype pyobj = PyNum real | PyValue ref

text \<open>\<open>__pow__\<close> tests its argument with \<open>isinstance(exponent, (int, float))\<close>, so there
  every Python object is a possible argument: a number (\<open>int\<close>, \<open>float\<close>, and \<open>bool\<close>,
  which is an \<open>int\<close>), a \<open>Value\<close>, or any other object (\<open>None\<close>, a string, a list, a
  complex number).\<close>

datatype pyarg = ArgNum real | ArgValue ref | ArgOther

text \<open>The tag \<open>_op\<close>: \<open>''\<close>, \<open>'+'\<close>, \<open>'*'\<close>, \<open>f'**{exponent}'\<close>, \<open>'ReLU'\<close>, \<open>'tanh'\<close>,
  \<open>'softmax'\<close>. The formatted exponent is kept as the number itself.\<close>

datatype optag = Leaf | Add | Mul | PowTag real | ReLU | Tanh | Softmax

text \<open>
  The closures stored in \<open>_backward\<close>, each with the variables it captures, in the
  order \<open>self\<close>, \<open>other\<close>/\<open>exponent\<close>/\<open>t\<close>, \<open>out\<close>; the softmax closure captures the lists
  \<open>values\<close> and \<open>out\<close>. Two closures made by different calls capture different \<open>out\<close>
  objects, so equality of these terms is identity of the closure objects (the
  \<open>lambda: None\<close> of different nodes are all \<open>NoBackward\<close>; they do nothing).
\<close>

datatype closure =
    NoBackward
  | AddBackward ref ref ref
  | MulBackward ref ref ref
  | PowBackward ref real ref
  | ReluBackward ref ref
  | TanhBackward ref real ref
  | SoftmaxBackward "ref list" "ref list"

text \<open>The fields of a \<open>Value\<close>. \<open>_prev\<close> is a Python set: \<open>v_prev\<close> is the list of its
  elements, without repetition, in the order in which the set is iterated. Python fixes
  no such order; \<open>Value_init\<close> below takes the order of the tuple it is given, and the
  general theorems about \<open>backward\<close> are stated for arbitrary stores, hence for every
  order.\<close>

record node =
  v_data :: real
  v_grad :: real
  v_prev :: "ref list"
  v_op :: optag
  v_backward :: closure

type_synonym heap = "node list"

text \<open>\<open>Value.__init__(data, _children, _op)\<close>: a new object, \<open>grad = 0.0\<close>,
  \<open>_prev = set(_children)\<close>, \<open>_backward = lambda: None\<close>.\<close>

definition Value_init :: "real \<Rightarrow> ref list \<Rightarrow> optag \<Rightarrow> heap \<Rightarrow> ref \<times> heap" where
  "Value_init data children tag h =
     (length h,
      h @ [\<lparr>v_data = data, v_grad = 0, v_prev = remdups children, v_op = tag,
            v_backward = NoBackward\<rparr>])"

text \<open>\<open>out._backward = f\<close> and \<open>x.grad += g\<close>.\<close>

definition set_backward :: "ref \<Rightarrow> closure \<Rightarrow> heap \<Rightarrow> heap" where
  "set_backward r c h = h[r := (h ! r)\<lparr>v_backward := c\<rparr>]"

definition add_grad :: "ref \<Rightarrow> real \<Rightarrow> heap \<Rightarrow> heap" where
  "add_grad r g h = h[r := (h ! r)\<lparr>v_grad := v_grad (h ! r) + g\<rparr>]"

text \<open>\<open>other if isinstance(other, Value) else Value(other)\<close>.\<close>

fun promote :: "pyobj \<Rightarrow> heap \<Rightarrow> ref \<times> heap" where
  "promote (PyValue r) h = (r, h)"
| "promote (PyNum c) h = Value_init c [] Leaf h"

section \<open>Arithmetic operators\<close>

definition Value_add :: "ref \<Rightarrow> pyobj \<Rightarrow> heap \<Rightarrow> ref \<times> heap" where
  "Value_add self other0 h =
     (let (other, h1) = promote other0 h;
          (out, h2) = Value_init (v_data (h1 ! self) + v_data (h1 ! other)) [self, other] Add h1
      in (out, set_backward out (AddBackward self other out) h2))"

definition Value_mul :: "ref \<Rightarrow> pyobj \<Rightarrow> heap \<Rightarrow> ref \<times> heap" where
  "Value_mul self other0 h =
     (let (other, h1) = promote other0 h;
          (out, h2) = Value_init (v_data (h1 ! self) * v_data (h1 ! other)) [self, other] Mul h1
      in (out, set_backward out (MulBackward self other out) h2))"

text \<open>Python's \<open>x ** y\<close> on \<open>float\<close> numbers. Zero to a negative power raises
  \<open>ZeroDivisionError\<close>. For a negative \<open>x\<close> and a non-integral \<open>y\<close> the result is complex.
  Otherwise the result is the real power (an integral exponent is repeated
  multiplication or its inverse, \<open>0 ** 0\<close> is 1), and \<open>OverflowError\<close> is raised when it is
  beyond the largest \<open>float\<close>, \<open>sys.float_info.max\<close>. (Python computes with \<open>int\<close> numbers
  of any size without this error; such numbers are not in the model.)\<close>

definition max_float :: real where
  "max_float = 2 ^ 1024 - 2 ^ 971"

definition float_range :: "real \<Rightarrow> bool" where
  "float_range r = (\<bar>r\<bar> \<le> max_float)"

definition real_power :: "real \<Rightarrow> real \<Rightarrow> real" where
  "real_power x y = (if of_int \<lfloor>y\<rfloor> = y then x powi \<lfloor>y\<rfloor> else x powr y)"

definition py_pow :: "real \<Rightarrow> real \<Rightarrow> error + real" where
  "py_pow x y =
     (if x = 0 \<and> y < 0 then Inl ZeroDivisionError
      else if x < 0 \<and> of_int \<lfloor>y\<rfloor> \<noteq> y then Inl ComplexResult
      else if \<not> float_range (real_power x y) then Inl OverflowError
      else Inr (real_power x y))"

text \<open>\<open>Value.__pow__\<close>. The assertion comes first (assertions are on, as they are unless
  Python is started with \<open>-O\<close>); then \<open>self.data ** exponent\<close> is evaluated, before the
  new object is made.\<close>

definition Value_pow :: "ref \<Rightarrow> pyarg \<Rightarrow> heap \<Rightarrow> (error + ref) \<times> heap" where
  "Value_pow self exponent0 h =
     (case exponent0 of
        ArgValue r \<Rightarrow> (Inl AssertionError, h)
      | ArgOther \<Rightarrow> (Inl AssertionError, h)
      | ArgNum exponent \<Rightarrow>
          (case py_pow (v_data (h ! self)) exponent of
             Inl e \<Rightarrow> (Inl e, h)
           | Inr d \<Rightarrow>
               (let (out, h1) = Value_init d [self] (PowTag exponent) h
                in (Inr out, set_backward out (PowBackward self exponent out) h1))))"

section \<open>Activation functions\<close>

definition Value_relu :: "ref \<Rightarrow> heap \<Rightarrow> ref \<times> heap" where
  "Value_relu self h =
     (let (out, h1) = Value_init (max 0 (v_data (h ! self))) [self] ReLU h
      in (out, set_backward out (ReluBackward self out) h1))"

definition Value_tanh :: "ref \<Rightarrow> heap \<Rightarrow> ref \<times> heap" where
  "Value_tanh self h =
     (let t = tanh (v_data (h ! self));
          (out, h1) = Value_init t [self] Tanh h
      in (out, set_backward out (TanhBackward self t out) h1))"

text \<open>\<open>max(v.data for v in values)\<close>: \<open>ValueError\<close> on an empty sequence.\<close>

fun py_max :: "real list \<Rightarrow> error + real" where
  "py_max [] = Inl ValueError"
| "py_max (x # xs) = Inr (fold max xs x)"

text \<open>\<open>sum(exps)\<close>: the additions start from 0 and go from left to right.\<close>

definition py_sum :: "real list \<Rightarrow> real" where
  "py_sum xs = fold (\<lambda>x s. s + x) xs 0"

text \<open>The loop \<open>for i, v in enumerate(values): out.append(Value(exps[i] / sum_exps, (v,), 'softmax'))\<close>,
  over the pairs of \<open>zip values exps\<close>, and the loop \<open>for o in out: o._backward = backward\<close>.\<close>

fun softmax_out :: "(ref \<times> real) list \<Rightarrow> real \<Rightarrow> ref list \<Rightarrow> heap \<Rightarrow> ref list \<times> heap" where
  "softmax_out [] sum_exps out h = (out, h)"
| "softmax_out ((v, e) # ves) sum_exps out h =
     (let (r, h1) = Value_init (e / sum_exps) [v] Softmax h
      in softmax_out ves sum_exps (out @ [r]) h1)"

definition Value_softmax :: "ref list \<Rightarrow> heap \<Rightarrow> (error + ref list) \<times> heap" where
  "Value_softmax values h =
     (case py_max (map (\<lambda>v. v_data (h ! v)) values) of
        Inl e \<Rightarrow> (Inl e, h)
      | Inr max_val \<Rightarrow>
          (let exps = map (\<lambda>v. exp (v_data (h ! v) - max_val)) values;
               sum_exps = py_sum exps;
               (out, h1) = softmax_out (zip values exps) sum_exps [] h
           in (Inr out, fold (\<lambda>r. set_backward r (SoftmaxBackward values out)) out h1)))"

section \<open>Calling a backward closure\<close>

text \<open>The outcome of code that writes to the store: \<open>Inr h'\<close> when it returns, with the
  store \<open>h'\<close>; \<open>Inl (e, h')\<close> when it raises \<open>e\<close>, with the store as it is at that moment.\<close>

type_synonym outcome = "error \<times> heap + heap"


text \<open>A \<open>for\<close> loop whose body may raise: the first exception ends the loop.\<close>

fun for_each :: "'a list \<Rightarrow> ('a \<Rightarrow> heap \<Rightarrow> outcome) \<Rightarrow> heap \<Rightarrow> outcome" where
  "for_each [] body h = Inr h"
| "for_each (x # xs) body h =
     (case body x h of Inl eh \<Rightarrow> Inl eh | Inr h1 \<Rightarrow> for_each xs body h1)"

text \<open>The body of the two nested loops of the softmax closure. \<open>values[j]\<close> is in
  range; \<open>out[i]\<close> and \<open>out[j]\<close> raise \<open>IndexError\<close> beyond the end of \<open>out\<close>.\<close>

definition softmax_body :: "ref list \<Rightarrow> ref list \<Rightarrow> nat \<Rightarrow> nat \<Rightarrow> heap \<Rightarrow> outcome" where
  "softmax_body values out i j h =
     (if i < length out \<and> j < length out then
        (if i = j then
           Inr (add_grad (values ! j)
                  (v_grad (h ! (out ! i)) * v_data (h ! (out ! i)) * (1 - v_data (h ! (out ! j)))) h)
         else
           Inr (add_grad (values ! j)
                  (- v_grad (h ! (out ! i)) * v_data (h ! (out ! i)) * v_data (h ! (out ! j))) h))
      else Inl (IndexError, h))"

text \<open>Calling a closure. The right-hand side of every \<open>+=\<close> is evaluated before the store
  is written, so a power that raises leaves the store as it was; the loops of the softmax
  closure keep what they wrote before an \<open>IndexError\<close>.\<close>

fun call :: "closure \<Rightarrow> heap \<Rightarrow> outcome" where
  "call NoBackward h = Inr h"
| "call (AddBackward self other out) h =
     (let h1 = add_grad self (v_grad (h ! out)) h
      in Inr (add_grad other (v_grad (h1 ! out)) h1))"
| "call (MulBackward self other out) h =
     (let h1 = add_grad self (v_data (h ! other) * v_grad (h ! out)) h
      in Inr (add_grad other (v_data (h1 ! self) * v_grad (h1 ! out)) h1))"
| "call (PowBackward self exponent out) h =
     (case py_pow (v_data (h ! self)) (exponent - 1) of
        Inl e \<Rightarrow> Inl (e, h)
      | Inr p \<Rightarrow> Inr (add_grad self (exponent * p * v_grad (h ! out)) h))"
| "call (ReluBackward self out) h =
     Inr (add_grad self ((if v_data (h ! self) > 0 then 1 else 0) * v_grad (h ! out)) h)"
| "call (TanhBackward self t out) h =
     Inr (add_grad self ((1 - t ^ 2) * v_grad (h ! out)) h)"
| "call (SoftmaxBackward values out) h =
     for_each [0..<length values]
       (\<lambda>i. for_each [0..<length values] (softmax_body values out i)) h"

section \<open>Backpropagation\<close>

text \<open>The loop \<open>for parent in v._prev: build_topo(parent)\<close>, over the state
  \<open>(visited, topo)\<close>; \<open>None\<close> is Python's \<open>RecursionError\<close>.\<close>

fun visit_all :: "('a \<Rightarrow> 's \<Rightarrow> 's option) \<Rightarrow> 'a list \<Rightarrow> 's \<Rightarrow> 's option" where
  "visit_all f [] st = Some st"
| "visit_all f (p # ps) st = (case f p st of None \<Rightarrow> None | Some st1 \<Rightarrow> visit_all f ps st1)"

text \<open>\<open>build_topo\<close>, the recursive closure of \<open>backward\<close>. The first argument is the
  number of nested calls the interpreter still allows.\<close>

fun build_topo :: "nat \<Rightarrow> heap \<Rightarrow> ref \<Rightarrow> ref set \<times> ref list \<Rightarrow> (ref set \<times> ref list) option" where
  "build_topo 0 h v st = None"
| "build_topo (Suc depth) h v (visited, topo) =
     (if v \<notin> visited then
        (case visit_all (build_topo depth h) (v_prev (h ! v)) (insert v visited, topo) of
           None \<Rightarrow> None
         | Some (visited1, topo1) \<Rightarrow> Some (visited1, topo1 @ [v]))
      else Some (visited, topo))"

text \<open>The loop \<open>for node in reversed(topo): node._backward()\<close>. Besides the store it
  returns the exception raised, if any, and the nodes whose \<open>_backward\<close> was called, in
  the order of the calls.\<close>

fun replay :: "ref list \<Rightarrow> heap \<Rightarrow> error option \<times> heap \<times> ref list" where
  "replay [] h = (None, h, [])"
| "replay (n # ns) h =
     (case call (v_backward (h ! n)) h of
        Inl (e, h1) \<Rightarrow> (Some e, h1, [n])
      | Inr h1 \<Rightarrow> (let (r, h2, called) = replay ns h1 in (r, h2, n # called)))"

text \<open>\<open>Value.backward\<close>, with the interpreter's recursion limit as first argument.\<close>

definition Value_backward :: "nat \<Rightarrow> ref \<Rightarrow> heap \<Rightarrow> error option \<times> heap \<times> ref list" where
  "Value_backward limit self h =
     (case build_topo limit h self ({}, []) of
        None \<Rightarrow> (Some RecursionError, h, [])
      | Some (visited, topo) \<Rightarrow> replay (rev topo) (h[self := (h ! self)\<lparr>v_grad := 1\<rparr>]))"

section \<open>Convenience operators\<close>

definition Value_neg :: "ref \<Rightarrow> heap \<Rightarrow> ref \<times> heap" where
  "Value_neg self h = Value_mul self (PyNum (- 1)) h"

text \<open>\<open>self + (-other)\<close>: \<open>-other\<close> is \<open>Value.__neg__\<close> for a \<open>Value\<close> and the negated
  number otherwise.\<close>

definition Value_sub :: "ref \<Rightarrow> pyobj \<Rightarrow> heap \<Rightarrow> ref \<times> heap" where
  "Value_sub self other h =
     (case other of
        PyValue r \<Rightarrow> (let (n, h1) = Value_neg r h in Value_add self (PyValue n) h1)
      | PyNum c \<Rightarrow> Value_add self (PyNum (- c)) h)"

text \<open>\<open>other + (-self)\<close> for a number \<open>other\<close>, which Python resolves through
  \<open>__radd__\<close>.\<close>

definition Value_radd :: "ref \<Rightarrow> pyobj \<Rightarrow> heap \<Rightarrow> ref \<times> heap" where
  "Value_radd self other h = Value_add self other h"

definition Value_rmul :: "ref \<Rightarrow> pyobj \<Rightarrow> heap \<Rightarrow> ref \<times> heap" where
  "Value_rmul self other h = Value_mul self other h"

definition Value_rsub :: "ref \<Rightarrow> real \<Rightarrow> heap \<Rightarrow> ref \<times> heap" where
  "Value_rsub self other h =
     (let (n, h1) = Value_neg self h in Value_radd n (PyNum other) h1)"

text \<open>\<open>self * other**-1\<close>: \<open>other**-1\<close> is \<open>Value.__pow__\<close> for a \<open>Value\<close> and Python's
  own power otherwise.\<close>

definition Value_truediv :: "ref \<Rightarrow> pyobj \<Rightarrow> heap \<Rightarrow> (error + ref) \<times> heap" where
  "Value_truediv self other h =
     (case other of
        PyValue r \<Rightarrow>
          (case Value_pow r (ArgNum (- 1)) h of
             (Inl e, h1) \<Rightarrow> (Inl e, h1)
           | (Inr p, h1) \<Rightarrow> (let (out, h2) = Value_mul self (PyValue p) h1 in (Inr out, h2)))
      | PyNum c \<Rightarrow>
          (case py_pow c (- 1) of
             Inl e \<Rightarrow> (Inl e, h)
           | Inr q \<Rightarrow> (let (out, h1) = Value_mul self (PyNum q) h in (Inr out, h1))))"

definition Value_rtruediv :: "ref \<Rightarrow> real \<Rightarrow> heap \<Rightarrow> (error + ref) \<times> heap" where
  "Value_rtruediv self other h =
     (case Value_pow self (ArgNum (- 1)) h of
        (Inl e, h1) \<Rightarrow> (Inl e, h1)
      | (Inr p, h1) \<Rightarrow> (let (out, h2) = Value_rmul p (PyNum other) h1 in (Inr out, h2)))"

section \<open>Well-formed stores and reachability\<close>

text \<open>The objects whose \<open>grad\<close> a closure writes, and those whose \<open>grad\<close> it reads.\<close>

fun writes :: "closure \<Rightarrow> ref list" where
  "writes NoBackward = []"
| "writes (AddBackward self other out) = [self, other]"
| "writes (MulBackward self other out) = [self, other]"
| "writes (PowBackward self exponent out) = [self]"
| "writes (ReluBackward self out) = [self]"
| "writes (TanhBackward self t out) = [self]"
| "writes (SoftmaxBackward values out) = values"

fun reads :: "closure \<Rightarrow> ref list" where
  "reads NoBackward = []"
| "reads (AddBackward self other out) = [out]"
| "reads (MulBackward self other out) = [out]"
| "reads (PowBackward self exponent out) = [out]"
| "reads (ReluBackward self out) = [out]"
| "reads (TanhBackward self t out) = [out]"
| "reads (SoftmaxBackward values out) = out"






text \<open>The part of a store that \<open>backward\<close> must leave alone: everything but \<open>grad\<close>.\<close>

definition frame :: "heap \<Rightarrow> heap" where
  "frame h = map (\<lambda>n. n\<lparr>v_grad := 0\<rparr>) h"

section \<open>Basic facts about the store\<close>

lemma length_set_backward [simp]: "length (set_backward r c h) = length h"
  by (simp add: set_backward_def)

lemma length_add_grad [simp]: "length (add_grad r g h) = length h"
  by (simp add: add_grad_def)

lemma nth_set_backward_data [simp]: "v_data (set_backward r c h ! n) = v_data (h ! n)"
  by (cases "r < length h"; cases "r = n") (simp_all add: set_backward_def list_update_beyond)

lemma fold_set_backward_length [simp]:
  "length (fold (\<lambda>r. set_backward r c) rs h) = length h"
  by (induction rs arbitrary: h) simp_all

lemma fold_set_backward_data [simp]:
  "v_data (fold (\<lambda>r. set_backward r c) rs h ! n) = v_data (h ! n)"
  by (induction rs arbitrary: h) simp_all

lemma softmax_out_eq:
  "softmax_out ves s out h =
     (out @ [length h ..< length h + length ves],
      h @ map (\<lambda>(v, e). \<lparr>v_data = e / s, v_grad = 0, v_prev = [v], v_op = Softmax,
                           v_backward = NoBackward\<rparr>) ves)"
proof (induction ves arbitrary: out h)
  case Nil
  then show ?case by simp
next
  case (Cons ve ves)
  obtain v e where ve: "ve = (v, e)" by (cases ve)
  have "[length h ..< length h + Suc (length ves)] =
        length h # [Suc (length h) ..< Suc (length h) + length ves]"
    by (simp add: upt_rec)
  then show ?case
    by (simp add: ve Cons.IH Value_init_def)
qed

section \<open>Failures at construction time\<close>

text \<open>
  C8. \<open>softmax\<close> of an empty sequence raises at once (\<open>max\<close> of an empty sequence is a
  \<open>ValueError\<close>); no node is created and the store is the one before the call.
\<close>

theorem softmax_empty_raises: "Value_softmax [] h = (Inl ValueError, h)"
  by (simp add: Value_softmax_def)

text \<open>
  C6. Dividing a node \<open>a\<close> by a node \<open>b\<close> whose value is zero raises
  \<open>ZeroDivisionError\<close> while the quotient is constructed, when \<open>b ** -1\<close> is evaluated:
  no node is created, so nothing is left to fail in \<open>backward\<close>, and the store is
  unchanged.
\<close>

theorem truediv_zero_node_raises:
  "v_data (h ! b) = 0 \<Longrightarrow> Value_truediv a (PyValue b) h = (Inl ZeroDivisionError, h)"
  by (simp add: Value_truediv_def Value_pow_def py_pow_def)

theorem truediv_zero_node_raises_witness:
  "v_data (snd (Value_init 0 [] Leaf (snd (Value_init 1 [] Leaf []))) ! 1) = 0 \<and>
   Value_truediv 0 (PyValue 1) (snd (Value_init 0 [] Leaf (snd (Value_init 1 [] Leaf [])))) =
     (Inl ZeroDivisionError, snd (Value_init 0 [] Leaf (snd (Value_init 1 [] Leaf []))))"
proof -
  have z: "v_data (snd (Value_init 0 [] Leaf (snd (Value_init 1 [] Leaf []))) ! 1) = 0"
    by (simp add: Value_init_def)
  show ?thesis
    using z truediv_zero_node_raises [OF z, of 0] by simp
qed

section \<open>Power\<close>









section \<open>Rectified linear unit\<close>

lemma relu_fwd:
  "Value_relu x h =
      (length h,
       h @ [\<lparr>v_data = max 0 (v_data (h ! x)), v_grad = 0, v_prev = [x], v_op = ReLU,
              v_backward = ReluBackward x (length h)\<rparr>])"
  by (simp add: Value_relu_def Value_init_def set_backward_def)

lemma relu_bwd:
  "x < length h \<Longrightarrow>
      \<exists>h'. call (ReluBackward x out) h = Inr h' \<and>
         v_grad (h' ! x) =
           v_grad (h ! x) + (if 0 < v_data (h ! x) then v_grad (h ! out) else 0)"
  by (simp add: add_grad_def)

lemma two_le_Suc_Suc: "2 \<le> (n::nat) \<Longrightarrow> \<exists>k. n = Suc (Suc k)"
  by (cases n; simp; cases "n - 1"; simp)

lemma relu_zero:
  assumes "2 \<le> limit"
  shows "let (z, h1) = Value_init 0 [] Leaf h;
           (r, h2) = Value_relu z h1;
           (e, h3, called) = Value_backward limit r h2
       in e = None \<and> called = [r, z] \<and> v_grad (h3 ! z) = 0 \<and> v_grad (h3 ! r) = 1"
proof -
  obtain k where k: "limit = Suc (Suc k)"
    using two_le_Suc_Suc [OF assms] by blast
  show ?thesis
    by (simp add: k Value_init_def Value_relu_def set_backward_def Value_backward_def
        nth_append add_grad_def)
qed

text \<open>
  C5. \<open>relu\<close> creates a node whose value is \<open>max 0 x.value\<close>. Its closure adds \<open>out.grad\<close>
  to \<open>x.grad\<close> when \<open>x.value\<close> is greater than 0, and adds 0 otherwise, also at 0 itself.
  For a fresh node \<open>z\<close> of value 0, \<open>z.relu().backward()\<close> calls the closures of the new node
  and of \<open>z\<close> and leaves \<open>z.grad\<close> at 0 (the interpreter must allow two nested calls).
\<close>

theorem relu_forward_backward:
  "Value_relu x h =
      (length h,
       h @ [\<lparr>v_data = max 0 (v_data (h ! x)), v_grad = 0, v_prev = [x], v_op = ReLU,
              v_backward = ReluBackward x (length h)\<rparr>]) \<and>
   (x < length h \<longrightarrow>
      (\<exists>h'. call (ReluBackward x out) h = Inr h' \<and>
         v_grad (h' ! x) =
           v_grad (h ! x) + (if 0 < v_data (h ! x) then v_grad (h ! out) else 0))) \<and>
   (2 \<le> limit \<longrightarrow>
      (let (z, h1) = Value_init 0 [] Leaf h;
           (r, h2) = Value_relu z h1;
           (e, h3, called) = Value_backward limit r h2
       in e = None \<and> called = [r, z] \<and> v_grad (h3 ! z) = 0 \<and> v_grad (h3 ! r) = 1))"
  apply (intro conjI impI)
    apply (rule relu_fwd)
   apply (erule relu_bwd)
  apply (erule relu_zero)
  done


theorem relu_forward_backward_witness:
  "0 < length (snd (Value_init (- 3) [] Leaf [])) \<and> (2::nat) \<le> 2 \<and>
   Value_relu 0 (snd (Value_init (- 3) [] Leaf [])) =
      (length (snd (Value_init (- 3) [] Leaf [])),
       (snd (Value_init (- 3) [] Leaf [])) @ [\<lparr>v_data = max 0 (v_data ((snd (Value_init (- 3) [] Leaf [])) ! 0)), v_grad = 0, v_prev = [0], v_op = ReLU,
              v_backward = ReluBackward 0 (length (snd (Value_init (- 3) [] Leaf [])))\<rparr>]) \<and>
   (\<exists>h'. call (ReluBackward 0 0) (snd (Value_init (- 3) [] Leaf [])) = Inr h' \<and>
         v_grad (h' ! 0) =
           v_grad ((snd (Value_init (- 3) [] Leaf [])) ! 0) + (if 0 < v_data ((snd (Value_init (- 3) [] Leaf [])) ! 0) then v_grad ((snd (Value_init (- 3) [] Leaf [])) ! 0) else 0)) \<and>
   (let (z, h1) = Value_init 0 [] Leaf (snd (Value_init (- 3) [] Leaf []));
        (r, h2) = Value_relu z h1;
        (e, h3, called) = Value_backward 2 r h2
    in e = None \<and> called = [r, z] \<and> v_grad (h3 ! z) = 0 \<and> v_grad (h3 ! r) = 1)"
proof -
  have x: "0 < length (snd (Value_init (- 3) [] Leaf []))" by (simp add: Value_init_def)
  have l: "(2::nat) \<le> 2" by simp
  note t = relu_forward_backward [of 0 "(snd (Value_init (- 3) [] Leaf []))" 0 2]
  show ?thesis
    using x l t [THEN conjunct1] t [THEN conjunct2, THEN conjunct1, THEN mp, OF x]
      t [THEN conjunct2, THEN conjunct2, THEN mp, OF l]
    by (intro conjI)
qed

section \<open>The order of backpropagation\<close>













section \<open>What \<open>backward\<close> leaves alone\<close>


lemma frame_add_grad [simp]: "frame (add_grad r g h) = frame h"
proof (cases "r < length h")
  case True
  then show ?thesis
    by (simp add: frame_def add_grad_def map_update list_update_same_conv)
next
  case False
  then show ?thesis by (simp add: add_grad_def list_update_beyond)
qed

lemma frame_seed [simp]: "frame (h[r := (h ! r)\<lparr>v_grad := g\<rparr>]) = frame h"
proof (cases "r < length h")
  case True
  then show ?thesis
    by (simp add: frame_def map_update list_update_same_conv)
next
  case False
  then show ?thesis by (simp add: list_update_beyond)
qed















section \<open>Accumulation of gradients\<close>


lemma grad_add_grad_same:
  "r < length h \<Longrightarrow> v_grad (add_grad r g h ! r) = v_grad (h ! r) + g"
  by (simp add: add_grad_def)

















section \<open>The frame of \<open>backward\<close>\<close>






section \<open>Softmax in the graph\<close>

text \<open>
  C1. The program \<open>a = Value(1.0); b = Value(1.0); o = Value.softmax([a, b]);
  root = o[0] ** 3 + o[1]; root.backward()\<close>. Both outputs carry the same closure, and
  \<open>backward\<close> calls the closure of every node of its list: the shared closure runs twice,
  once at \<open>o[1]\<close> (when \<open>o[0].grad\<close> is still 0) and once at \<open>o[0]\<close>, and \<open>a.grad\<close> ends at
  \<open>-5/16\<close>. The root has two parents; when its set of parents is iterated in the other
  order, the closure runs twice as well, both times with the final gradients of the
  outputs, and \<open>a.grad\<close> ends at \<open>-1/8\<close>. One call of the closure, made when the gradients
  of both outputs are final (\<open>3/4\<close> and \<open>1\<close>), adds \<open>-1/16\<close> to \<open>a.grad\<close> and \<open>1/16\<close> to
  \<open>b.grad\<close>, which is the derivative of the root. All numbers of this run are exact in
  floating point.
\<close>

theorem softmax_step_called_per_output:
  "(let (a, h1) = Value_init 1 [] Leaf [];
        (b, h2) = Value_init 1 [] Leaf h1;
        (r, h3) = Value_softmax [a, b] h2
    in case r of
         Inl err \<Rightarrow> False
       | Inr out \<Rightarrow>
           (case Value_pow (out ! 0) (ArgNum 3) h3 of
              (Inl err, h4) \<Rightarrow> False
            | (Inr m, h4) \<Rightarrow>
                (let (root, h5) = Value_add m (PyValue (out ! 1)) h4;
                     (e, h6, called) = Value_backward 6 root h5;
                     other = h5[root := (h5 ! root)\<lparr>v_prev := rev (v_prev (h5 ! root))\<rparr>];
                     (e', h6', called') = Value_backward 6 root other
                 in map (\<lambda>n. v_backward (h5 ! n)) out =
                      [SoftmaxBackward [a, b] out, SoftmaxBackward [a, b] out] \<and>
                    e = None \<and> called = [root, out ! 1, b, m, out ! 0, a] \<and>
                    length (filter (\<lambda>n. v_backward (h5 ! n) = SoftmaxBackward [a, b] out) called) = 2 \<and>
                    v_grad (h6 ! (out ! 0)) = 3 / 4 \<and> v_grad (h6 ! (out ! 1)) = 1 \<and>
                    v_grad (h6 ! a) = - (5 / 16) \<and> v_grad (h6 ! b) = 5 / 16 \<and>
                    e' = None \<and> called' = [root, m, out ! 0, a, out ! 1, b] \<and>
                    length (filter (\<lambda>n. v_backward (other ! n) = SoftmaxBackward [a, b] out) called') = 2 \<and>
                    v_grad (h6' ! a) = - (1 / 8) \<and> v_grad (h6' ! b) = 1 / 8 \<and>
                    call (SoftmaxBackward [a, b] out)
                      (add_grad (out ! 1) 1 (add_grad (out ! 0) (3 / 4) h5)) =
                      Inr (add_grad b (1 / 16) (add_grad a (- (1 / 16))
                             (add_grad (out ! 1) 1 (add_grad (out ! 0) (3 / 4) h5)))))))"
  by (simp add: Value_init_def Value_softmax_def py_sum_def Value_pow_def py_pow_def real_power_def
      float_range_def max_float_def Value_add_def set_backward_def Value_backward_def
      add_grad_def softmax_body_def nth_append Let_def upt_rec eval_nat_numeral)

lemma nth_set_backward_prev [simp]: "v_prev (set_backward r c h ! n) = v_prev (h ! n)"
  by (cases "r < length h"; cases "r = n") (simp_all add: set_backward_def list_update_beyond)

lemma fold_set_backward_prev [simp]:
  "v_prev (fold (\<lambda>r. set_backward r c) rs h ! n) = v_prev (h ! n)"
  by (induction rs arbitrary: h) simp_all

lemma softmax_parents:
  "(case Value_softmax vs h of
      (Inl e, h') \<Rightarrow> vs = [] \<and> h' = h
    | (Inr out, h') \<Rightarrow>
        out = [length h ..< length h + length vs] \<and>
        map (\<lambda>r. v_prev (h' ! r)) out = map (\<lambda>v. [v]) vs)"
proof (cases vs)
  case Nil
  then show ?thesis by (simp add: Value_softmax_def)
next
  case (Cons v ws)
  then obtain m where pm: "py_max (map (\<lambda>v. v_data (h ! v)) vs) = Inr m" by simp
  define es where "es = map (\<lambda>v. exp (v_data (h ! v) - m)) vs"
  define out where "out = [length h ..< length h + length vs]"
  define h1 where "h1 = h @ map (\<lambda>(v, e). \<lparr>v_data = e / py_sum es, v_grad = 0, v_prev = [v],
      v_op = Softmax, v_backward = NoBackward\<rparr>) (zip vs es)"
  have len: "length es = length vs" by (simp add: es_def)
  have eq: "Value_softmax vs h =
      (Inr out, fold (\<lambda>r. set_backward r (SoftmaxBackward vs out)) out h1)"
    by (simp add: Value_softmax_def pm es_def[symmetric] softmax_out_eq len out_def h1_def Let_def)
  have "map (\<lambda>r. v_prev (fold (\<lambda>r. set_backward r (SoftmaxBackward vs out)) out h1 ! r)) out =
        map (\<lambda>v. [v]) vs"
    by (rule nth_equalityI) (simp_all add: out_def h1_def len nth_append)
  then show ?thesis
    by (simp add: eq out_def[symmetric])
qed

lemma softmax_one_output_backward:
  "(let (x, h1) = Value_init 1 [] Leaf [];
        (y, h2) = Value_init 1 [] Leaf h1;
        (p, h3) = Value_mul x (PyValue y) h2;
        (q, h4) = Value_init 1 [] Leaf h3;
        (r, h5) = Value_softmax [p, q] h4
    in case r of
         Inl err \<Rightarrow> False
       | Inr out \<Rightarrow>
           (let (e, h6, called) = Value_backward 6 (out ! 1) h5
            in map (\<lambda>n. v_prev (h5 ! n)) out = [[p], [q]] \<and>
               map (\<lambda>n. writes (v_backward (h5 ! n))) out = [[p, q], [p, q]] \<and>
               v_prev (h5 ! p) = [x, y] \<and> v_backward (h5 ! p) = MulBackward x y p \<and>
               e = None \<and> called = [out ! 1, q] \<and>
               v_grad (h6 ! p) = - (1 / 4) \<and> v_grad (h6 ! q) = 1 / 4 \<and>
               v_grad (h6 ! x) = 0 \<and> v_grad (h6 ! y) = 0))"
  by (simp add: Value_init_def Value_softmax_def py_sum_def Value_mul_def set_backward_def
      Value_backward_def add_grad_def softmax_body_def nth_append Let_def upt_rec
      eval_nat_numeral)

text \<open>
  C4. \<open>softmax\<close> gives the new nodes the indices that follow the store, and the \<open>i\<close>-th
  output has one parent, the \<open>i\<close>-th input, whatever the number of inputs; its closure
  writes to all inputs. In the program \<open>x = Value(1.0); y = Value(1.0); p = x * y;
  q = Value(1.0); out = Value.softmax([p, q]); out[1].backward()\<close> the node \<open>p\<close> is
  therefore not reached from \<open>out[1]\<close>: \<open>backward\<close> calls the closures of \<open>out[1]\<close> and \<open>q\<close>,
  \<open>p.grad\<close> becomes \<open>-1/4\<close>, and the closure of \<open>p\<close> is never called, so that \<open>x.grad\<close> and
  \<open>y.grad\<close> stay 0.
\<close>

theorem softmax_output_parents:
  "(case Value_softmax vs h of
      (Inl e, h') \<Rightarrow> vs = [] \<and> h' = h
    | (Inr out, h') \<Rightarrow>
        out = [length h ..< length h + length vs] \<and>
        map (\<lambda>r. v_prev (h' ! r)) out = map (\<lambda>v. [v]) vs) \<and>
   (let (x, h1) = Value_init 1 [] Leaf [];
        (y, h2) = Value_init 1 [] Leaf h1;
        (p, h3) = Value_mul x (PyValue y) h2;
        (q, h4) = Value_init 1 [] Leaf h3;
        (r, h5) = Value_softmax [p, q] h4
    in case r of
         Inl err \<Rightarrow> False
       | Inr out \<Rightarrow>
           (let (e, h6, called) = Value_backward 6 (out ! 1) h5
            in map (\<lambda>n. v_prev (h5 ! n)) out = [[p], [q]] \<and>
               map (\<lambda>n. writes (v_backward (h5 ! n))) out = [[p, q], [p, q]] \<and>
               v_prev (h5 ! p) = [x, y] \<and> v_backward (h5 ! p) = MulBackward x y p \<and>
               e = None \<and> called = [out ! 1, q] \<and>
               v_grad (h6 ! p) = - (1 / 4) \<and> v_grad (h6 ! q) = 1 / 4 \<and>
               v_grad (h6 ! x) = 0 \<and> v_grad (h6 ! y) = 0))"
  by (rule conjI [OF softmax_parents softmax_one_output_backward])

end
